theory Spec2Isabelle
  imports Complex_Main "HOL-Library.Sublist"
begin

section \<open>Data received from the backend and data handed to the chart\<close>

text \<open>
  The three JSON bodies of the backend, with the field names the screens read
  (\<open>wellData.dates\<close>, \<open>wellData.levels\<close>, \<open>predictData.predicted_levels\<close>,
  \<open>analysisData.condition\<close>, \<open>analysisData.steps\<close>). JSON numbers are only moved
  around by the screens, never computed with; they are modelled as \<open>real\<close>.
  A dataset entry is a number or \<open>null\<close>: \<open>None\<close> stands for \<open>null\<close>.
\<close>

type_synonym number = real

record well_data =
  dates :: "string list"
  levels :: "number list"

record predict_data =
  predicted_levels :: "number list"

record analysis_data =
  condition :: string
  steps :: "string list"

record dataset =
  data :: "number option list"

record chart_data =
  labels :: "string list"
  datasets :: "dataset list"

section \<open>Chart composition (both screens)\<close>

text \<open>
  \<open>Array.prototype.filter\<close> with a callback that looks at the index only:
  \<open>xs.filter((_, i) => p(i))\<close>.
\<close>

definition filter_index :: "(nat \<Rightarrow> bool) \<Rightarrow> 'a list \<Rightarrow> 'a list" where
  "filter_index p xs = map fst (filter (\<lambda>(x, i). p i) (zip xs [0..<length xs]))"

text \<open>\<open>combinedLabels.filter((_, i) => i % 60 === 0)\<close>\<close>

definition displayLabels :: "string list \<Rightarrow> string list" where
  "displayLabels combinedLabels = filter_index (\<lambda>i. i mod 60 = 0) combinedLabels"

text \<open>\<open>const historicalDataset = wellData.levels\<close>, as entries of a dataset.\<close>

definition historicalDataset :: "well_data \<Rightarrow> number option list" where
  "historicalDataset wellData = map Some (levels wellData)"

text \<open>
  \<open>Array(wellData.levels.length).fill(null).concat(predictData.predicted_levels)\<close>
\<close>

definition forecastDataset :: "well_data \<Rightarrow> predict_data \<Rightarrow> number option list" where
  "forecastDataset wellData predictData =
     replicate (length (levels wellData)) None @ map Some (predicted_levels predictData)"

text \<open>The object passed to \<open>setChartData\<close>.\<close>

definition composeChart :: "well_data \<Rightarrow> predict_data \<Rightarrow> chart_data" where
  "composeChart wellData predictData =
     \<lparr> labels = displayLabels (dates wellData),
       datasets = [ \<lparr> data = historicalDataset wellData \<rparr>,
                    \<lparr> data = forecastDataset wellData predictData \<rparr> ] \<rparr>"

section \<open>Severity colour of the condition text (both screens)\<close>

text \<open>
  \<open>String.prototype.includes\<close>: the search string occurs somewhere in the string.
\<close>

fun str_includes :: "string \<Rightarrow> string \<Rightarrow> bool" where
  "str_includes [] searchString = (searchString = [])"
| "str_includes (c # cs) searchString =
     (prefix searchString (c # cs) \<or> str_includes cs searchString)"

text \<open>
  \<open>analysis.condition.includes('Critical') ? 'red'
     : analysis.condition.includes('Semi-Critical') ? 'orange' : 'green'\<close>
\<close>

definition conditionColor :: "string \<Rightarrow> string" where
  "conditionColor cond =
     (if str_includes cond ''Critical'' then ''red''
      else if str_includes cond ''Semi-Critical'' then ''orange''
      else ''green'')"

section \<open>Requests and replies\<close>

text \<open>The city keys of \<open>CITY_INFO\<close> (\<open>type CityKey = keyof typeof CITY_INFO\<close>).\<close>

datatype CityKey = bhubaneswar_odisha | jaipur_rajasthan | nagpur_maharashtra

text \<open>
  A request is a GET to one of the three paths under \<open>API_BASE_URL\<close>, with or without
  the query parameter \<open>source\<close>.
\<close>

datatype endpoint = WellData | Predict | Analysis

datatype request = Get endpoint "CityKey option"

definition API_BASE_URL :: string where
  "API_BASE_URL = ''https://aqua-watch.onrender.com''"

text \<open>
  A response has a status and a body; \<open>response.json()\<close> either rejects with an error
  (its message, \<open>Inl\<close>) or resolves with the parsed body (\<open>Inr\<close>). A parsed body has the
  shape of its endpoint. \<open>fetch\<close> itself either rejects (network failure or abort, with
  the error's message) or resolves with a response, whatever its status.
\<close>

datatype 'a response = Response (status : nat) (json : "string + 'a")

datatype 'a fetched = Rejected string | Resolved "'a response"

text \<open>\<open>response.ok\<close>: the status is in the range 200 to 299.\<close>

definition ok :: "'a response \<Rightarrow> bool" where
  "ok r = (200 \<le> status r \<and> status r \<le> 299)"

text \<open>
  What the backend answers during one fetch cycle, per endpoint and \<open>source\<close> parameter.
  \<open>probe_timed_out\<close> says whether the 10 second timer of \<open>testBackendConnection\<close>
  fires (and aborts the request) before the probe's \<open>fetch\<close> settles.
\<close>

record backend =
  well_data_reply :: "CityKey option \<Rightarrow> well_data fetched"
  predict_reply :: "CityKey option \<Rightarrow> predict_data fetched"
  analysis_reply :: "CityKey option \<Rightarrow> analysis_data fetched"
  probe_timed_out :: bool

text \<open>A number in a template literal: its decimal digits.\<close>

function string_of_nat :: "nat \<Rightarrow> string" where
  "string_of_nat n =
     (if n < 10 then [char_of (48 + n)]
      else string_of_nat (n div 10) @ [char_of (48 + n mod 10)])"
  by pat_completeness auto
termination
  by (relation "measure (\<lambda>n. n)") auto

declare string_of_nat.simps [simp del]

section \<open>HomeScreen: the fetch cycle of \<open>app/(tabs)/index.tsx\<close>\<close>

text \<open>
  \<open>testBackendConnection\<close>: GET \<open>/api/well-data\<close> (no \<open>source\<close>) under an abort timer of
  10 seconds. True when the response is ok; false on any other status, on a rejected
  fetch and on the abort.
\<close>

definition probe_request :: request where
  "probe_request = Get WellData None"

definition testBackendConnection :: "backend \<Rightarrow> bool" where
  "testBackendConnection bk =
     (if probe_timed_out bk then False
      else case well_data_reply bk None of
             Rejected m \<Rightarrow> False
           | Resolved response \<Rightarrow> if ok response then True else False)"

text \<open>
  How the body of \<open>fetchData\<close> ends: the \<open>try\<close> block reaches \<open>setChartData\<close> and
  \<open>setAnalysis\<close> with these two values (\<open>Ready\<close>), or an error with this message is
  caught (\<open>Failed\<close>).
\<close>

datatype outcome = Ready chart_data analysis_data | Failed string

text \<open>
  \<open>const r = await fetch(url); if (!r.ok) throw new Error(`<what> request failed with
  status: ${r.status}`)\<close>, the step repeated for each of the three endpoints.
\<close>

definition fetch_checked :: "string \<Rightarrow> 'a fetched \<Rightarrow> string + 'a response" where
  "fetch_checked what f =
     (case f of
        Rejected m \<Rightarrow> Inl m
      | Resolved r \<Rightarrow>
          if \<not> ok r
          then Inl (what @ '' request failed with status: '' @ string_of_nat (status r))
          else Inr r)"

text \<open>
  \<open>fetchData\<close> of HomeScreen for the city its effect was started with. The result is
  the list of requests issued, in order, and the outcome.
\<close>

definition HomeScreen_fetchData :: "backend \<Rightarrow> CityKey \<Rightarrow> request list \<times> outcome" where
  "HomeScreen_fetchData bk selectedCity =
     (if \<not> testBackendConnection bk
      then ([probe_request], Failed ''Cannot connect to backend server'')
      else
        case fetch_checked ''Well data'' (well_data_reply bk (Some selectedCity)) of
          Inl m \<Rightarrow> ([probe_request, Get WellData (Some selectedCity)], Failed m)
        | Inr wellResponse \<Rightarrow>
        (case fetch_checked ''Predict'' (predict_reply bk (Some selectedCity)) of
          Inl m \<Rightarrow>
            ([probe_request, Get WellData (Some selectedCity),
              Get Predict (Some selectedCity)], Failed m)
        | Inr predictResponse \<Rightarrow>
        (case fetch_checked ''Analysis'' (analysis_reply bk (Some selectedCity)) of
          Inl m \<Rightarrow>
            ([probe_request, Get WellData (Some selectedCity),
              Get Predict (Some selectedCity), Get Analysis (Some selectedCity)], Failed m)
        | Inr analysisResponse \<Rightarrow>
            ([probe_request, Get WellData (Some selectedCity),
              Get Predict (Some selectedCity), Get Analysis (Some selectedCity)],
             (case json wellResponse of
                Inl m \<Rightarrow> Failed m
              | Inr wellData \<Rightarrow>
              (case json predictResponse of
                Inl m \<Rightarrow> Failed m
              | Inr predictData \<Rightarrow>
              (case json analysisResponse of
                Inl m \<Rightarrow> Failed m
              | Inr analysisData \<Rightarrow>
                  Ready (composeChart wellData predictData) analysisData)))))))"

text \<open>
  The state cells shared by both screens (\<open>useState\<close>), and the two more of HomeScreen.
\<close>

record screen_state =
  loading :: bool
  chartData :: chart_data
  analysis :: analysis_data

record home_state = screen_state +
  selectedCity :: CityKey
  modalVisible :: bool

text \<open>The record the \<open>catch\<close> block of HomeScreen passes to \<open>setAnalysis\<close>.\<close>

definition connection_error :: "string \<Rightarrow> analysis_data" where
  "connection_error errorMessage =
     \<lparr> condition = ''Connection Error'',
       steps = [ ''Error: '' @ errorMessage,
                 ''Check if the Flask backend is running on port 5000'',
                 ''Verify your device is connected to the same WiFi network'',
                 ''Backend URL: '' @ API_BASE_URL ] \<rparr>"

text \<open>
  The state updates at the end of \<open>fetchData\<close>, which run without a suspension point
  between them: \<open>setChartData\<close> and \<open>setAnalysis\<close> at the end of \<open>try\<close>, or \<open>setAnalysis\<close>
  in \<open>catch\<close>; then \<open>setLoading(false)\<close> in \<open>finally\<close>. No update reads the state.
\<close>

definition HomeScreen_settle :: "outcome \<Rightarrow> home_state \<Rightarrow> home_state" where
  "HomeScreen_settle out s =
     (case out of
        Ready chart analysisData \<Rightarrow>
          s\<lparr> chartData := chart, analysis := analysisData, loading := False \<rparr>
      | Failed errorMessage \<Rightarrow>
          s\<lparr> analysis := connection_error errorMessage, loading := False \<rparr>)"

text \<open>The \<open>onPress\<close> handler of a city option in the modal.\<close>

definition onPress :: "CityKey \<Rightarrow> home_state \<Rightarrow> home_state" where
  "onPress key s = s\<lparr> selectedCity := key, modalVisible := False, loading := True \<rparr>"

text \<open>The initial values of the \<open>useState\<close> cells.\<close>

definition initial_chartData :: chart_data where
  "initial_chartData = \<lparr> labels = [], datasets = [ \<lparr> data = [] \<rparr> ] \<rparr>"

definition initial_analysis :: analysis_data where
  "initial_analysis = \<lparr> condition = [], steps = [] \<rparr>"

definition HomeScreen_initial :: home_state where
  "HomeScreen_initial =
     \<lparr> loading = True, chartData = initial_chartData, analysis = initial_analysis,
       selectedCity = bhubaneswar_odisha, modalVisible = False \<rparr>"

text \<open>
  HomeScreen with the fetch cycles its effect has started and that have not settled yet.
  The effect has \<open>[selectedCity]\<close> as its dependencies: it runs after the first render
  and after every render in which \<open>selectedCity\<close> has changed, and each run calls
  \<open>fetchData\<close> for the city of that render.
\<close>

record app =
  screen :: home_state
  in_flight :: "CityKey list"

definition App_initial :: app where
  "App_initial = \<lparr> screen = HomeScreen_initial, in_flight = [bhubaneswar_odisha] \<rparr>"

text \<open>
  What can happen to the mounted component. While \<open>loading\<close> is true the component
  returns the activity indicator only, so the dropdown and the modal with the city
  options are rendered, and can be pressed, only when \<open>loading\<close> is false; the city
  options are visible only while \<open>modalVisible\<close> is true. A cycle in flight settles with
  the replies the backend gave to it.
\<close>

datatype event =
    OpenDropdown
  | CloseModal
  | PressCity CityKey
  | Completes CityKey backend

definition fire :: "event \<Rightarrow> app \<Rightarrow> app option" where
  "fire e a =
     (case e of
        OpenDropdown \<Rightarrow>
          if loading (screen a) then None
          else Some (a\<lparr> screen := (screen a)\<lparr> modalVisible := True \<rparr> \<rparr>)
      | CloseModal \<Rightarrow>
          if loading (screen a) \<or> \<not> modalVisible (screen a) then None
          else Some (a\<lparr> screen := (screen a)\<lparr> modalVisible := False \<rparr> \<rparr>)
      | PressCity key \<Rightarrow>
          if loading (screen a) \<or> \<not> modalVisible (screen a) then None
          else Some \<lparr> screen = onPress key (screen a),
                      in_flight = (if key = selectedCity (screen a) then in_flight a
                                   else in_flight a @ [key]) \<rparr>
      | Completes key bk \<Rightarrow>
          if key \<in> set (in_flight a)
          then Some \<lparr> screen = HomeScreen_settle (snd (HomeScreen_fetchData bk key)) (screen a),
                      in_flight = remove1 key (in_flight a) \<rparr>
          else None)"

fun run :: "event list \<Rightarrow> app \<Rightarrow> app option" where
  "run [] a = Some a"
| "run (e # es) a = (case fire e a of None \<Rightarrow> None | Some a' \<Rightarrow> run es a')"

section \<open>IndexScreen: the fetch cycle of \<open>app/index.tsx\<close>\<close>

text \<open>
  The three requests are issued together (\<open>Promise.all\<close>), without \<open>source\<close> and without
  a look at the status; the bodies are parsed in order. The message of a caught error
  goes to the console only.
\<close>

definition IndexScreen_fetchData :: "backend \<Rightarrow> request list \<times> outcome" where
  "IndexScreen_fetchData bk =
     ([Get WellData None, Get Predict None, Get Analysis None],
      (case well_data_reply bk None of
         Rejected m \<Rightarrow> Failed m
       | Resolved wellResponse \<Rightarrow>
       (case predict_reply bk None of
         Rejected m \<Rightarrow> Failed m
       | Resolved predictResponse \<Rightarrow>
       (case analysis_reply bk None of
         Rejected m \<Rightarrow> Failed m
       | Resolved analysisResponse \<Rightarrow>
       (case json wellResponse of
         Inl m \<Rightarrow> Failed m
       | Inr wellData \<Rightarrow>
       (case json predictResponse of
         Inl m \<Rightarrow> Failed m
       | Inr predictData \<Rightarrow>
       (case json analysisResponse of
         Inl m \<Rightarrow> Failed m
       | Inr analysisData \<Rightarrow>
           Ready (composeChart wellData predictData) analysisData)))))))"

definition IndexScreen_settle :: "outcome \<Rightarrow> screen_state \<Rightarrow> screen_state" where
  "IndexScreen_settle out s =
     (case out of
        Ready chart analysisData \<Rightarrow>
          s\<lparr> chartData := chart, analysis := analysisData, loading := False \<rparr>
      | Failed errorMessage \<Rightarrow>
          s\<lparr> analysis :=
               \<lparr> condition = ''Error'',
                 steps = [ ''Could not connect to the server. Make sure the backend is running and the IP address is correct.'' ] \<rparr>,
             loading := False \<rparr>)"

definition IndexScreen_initial :: screen_state where
  "IndexScreen_initial =
     \<lparr> loading = True, chartData = initial_chartData, analysis = initial_analysis \<rparr>"

section \<open>Concrete inputs\<close>

text \<open>One measurement and one predicted level.\<close>

definition well_1 :: well_data where
  "well_1 = \<lparr> dates = [''2020-01-01''], levels = [12] \<rparr>"

definition predict_1 :: predict_data where
  "predict_1 = \<lparr> predicted_levels = [13] \<rparr>"

text \<open>180 dates and levels, 30 predicted levels; date \<open>i\<close> is the text \<open>day i\<close>.\<close>

definition well_180 :: well_data where
  "well_180 = \<lparr> dates = map (\<lambda>i. ''day '' @ string_of_nat i) [0..<180],
                 levels = map real [0..<180] \<rparr>"

definition predict_30 :: predict_data where
  "predict_30 = \<lparr> predicted_levels = map real [180..<210] \<rparr>"

definition analysis_semi :: analysis_data where
  "analysis_semi = \<lparr> condition = ''Semi-Critical'', steps = [''Reduce pumping''] \<rparr>"

text \<open>A backend that answers every request with status 200 and the bodies given.\<close>

definition backend_ok :: "well_data \<Rightarrow> predict_data \<Rightarrow> analysis_data \<Rightarrow> backend" where
  "backend_ok w p a =
     \<lparr> well_data_reply = (\<lambda>src. Resolved (Response 200 (Inr w))),
       predict_reply = (\<lambda>src. Resolved (Response 200 (Inr p))),
       analysis_reply = (\<lambda>src. Resolved (Response 200 (Inr a))),
       probe_timed_out = False \<rparr>"

text \<open>The same, except that the analysis endpoint answers with status 500.\<close>

definition backend_analysis_500 :: backend where
  "backend_analysis_500 =
     (backend_ok well_1 predict_1 analysis_semi)
       \<lparr> analysis_reply := (\<lambda>src. Resolved (Response 500 (Inr analysis_semi))) \<rparr>"

text \<open>The same, except that the well-data endpoint answers with status 500.\<close>

definition backend_well_500 :: backend where
  "backend_well_500 =
     (backend_ok well_1 predict_1 analysis_semi)
       \<lparr> well_data_reply := (\<lambda>src. Resolved (Response 500 (Inl ''Unexpected token <''))) \<rparr>"

text \<open>The same, except that the probe runs into its timer.\<close>

definition backend_probe_timeout :: backend where
  "backend_probe_timeout =
     (backend_ok well_1 predict_1 analysis_semi) \<lparr> probe_timed_out := True \<rparr>"

text \<open>No measurement at all.\<close>

definition well_empty :: well_data where
  "well_empty = \<lparr> dates = [], levels = [] \<rparr>"




text \<open>The same, and then the cycle for Jaipur fails.\<close>

definition failing_switch_events :: "event list" where
  "failing_switch_events =
     [ Completes bhubaneswar_odisha (backend_ok well_1 predict_1 analysis_semi),
       OpenDropdown, PressCity jaipur_rajasthan,
       Completes jaipur_rajasthan backend_well_500 ]"



section \<open>Invariant of the mounted HomeScreen\<close>






section \<open>Facts about the label stride\<close>

lemma stride_div:
  assumes "r < 60"
  shows "(60 * q + r + 59) div 60 = q + (if r = 0 then 0 else 1::nat)"
proof (cases "r = 0")
  case True
  then show ?thesis by simp
next
  case False
  then have "60 * q + r + 59 = 60 * Suc q + (r - 1)" by simp
  moreover have "(60 * Suc q + (r - 1)) div 60 = Suc q"
    using assms by simp
  ultimately show ?thesis using False by simp
qed

lemma stride_step:
  "(Suc n + 59) div 60 = (n + 59) div 60 + (if n mod 60 = 0 then 1 else 0)"
proof -
  define q r where "q = n div 60" and "r = n mod 60"
  have n: "n = 60 * q + r" and r: "r < 60"
    by (simp_all add: q_def r_def)
  have "(Suc n + 59) div 60 = (60 * Suc q + r) div 60"
    by (simp add: n)
  also have "\<dots> = Suc q"
    using r by simp
  finally have a: "(Suc n + 59) div 60 = Suc q" .
  have b: "(n + 59) div 60 = q + (if r = 0 then 0 else 1)"
    unfolding n by (rule stride_div [OF r])
  show ?thesis
    unfolding a b by (simp add: r_def)
qed

lemma stride_exact: "n mod 60 = 0 \<Longrightarrow> 60 * ((n + 59) div 60) = (n::nat)"
proof -
  assume z: "n mod 60 = 0"
  then have n: "n = 60 * (n div 60) + 0" by presburger
  have "(60 * (n div 60) + 0 + 59) div 60 = n div 60 + (if (0::nat) = 0 then 0 else 1)"
    by (rule stride_div) simp
  then have "(n + 59) div 60 = n div 60" using n by simp
  then show ?thesis using z by simp
qed


lemma stride_lt: "k < (n + 59) div 60 \<Longrightarrow> 60 * k < (n::nat)"
  by linarith

lemma filter_index_snoc:
  "filter_index p (xs @ [x]) = filter_index p xs @ (if p (length xs) then [x] else [])"
  by (simp add: filter_index_def)

lemma displayLabels_snoc:
  "displayLabels (xs @ [x]) = displayLabels xs @ (if length xs mod 60 = 0 then [x] else [])"
  unfolding displayLabels_def by (rule filter_index_snoc)

lemma displayLabels_Nil: "displayLabels [] = []"
  by (simp add: displayLabels_def filter_index_def)

lemma length_displayLabels: "length (displayLabels xs) = (length xs + 59) div 60"
proof (induction xs rule: rev_induct)
  case Nil
  show ?case by (simp add: displayLabels_Nil)
next
  case (snoc x xs)
  have "length (displayLabels (xs @ [x]))
      = length (displayLabels xs) + (if length xs mod 60 = 0 then 1 else 0)"
    by (simp add: displayLabels_snoc)
  also have "\<dots> = (length xs + 59) div 60 + (if length xs mod 60 = 0 then 1 else 0)"
    by (simp only: snoc.IH)
  also have "\<dots> = (Suc (length xs) + 59) div 60"
    by (simp only: stride_step)
  finally show ?case by simp
qed

lemma displayLabels_nth:
  "displayLabels xs = map (\<lambda>k. xs ! (60 * k)) [0..<(length xs + 59) div 60]"
proof (induction xs rule: rev_induct)
  case Nil
  show ?case by (simp add: displayLabels_Nil)
next
  case (snoc x xs)
  let ?n = "length xs"
  let ?m = "(?n + 59) div 60"
  have old: "map (\<lambda>k. (xs @ [x]) ! (60 * k)) [0..<?m] = map (\<lambda>k. xs ! (60 * k)) [0..<?m]"
    by (rule map_cong) (auto simp: nth_append stride_lt)
  show ?case
  proof (cases "?n mod 60 = 0")
    case True
    have m: "(length (xs @ [x]) + 59) div 60 = Suc ?m"
      using stride_step [of ?n] True by simp
    have "displayLabels (xs @ [x]) = displayLabels xs @ [x]"
      using True by (simp add: displayLabels_snoc)
    also have "\<dots> = map (\<lambda>k. xs ! (60 * k)) [0..<?m] @ [(xs @ [x]) ! (60 * ?m)]"
      using snoc.IH stride_exact [OF True] by simp
    also have "\<dots> = map (\<lambda>k. (xs @ [x]) ! (60 * k)) [0..<Suc ?m]"
      by (simp add: old)
    finally show ?thesis by (simp only: m)
  next
    case False
    have m: "(length (xs @ [x]) + 59) div 60 = ?m"
      using stride_step [of ?n] False by simp
    have "displayLabels (xs @ [x]) = displayLabels xs"
      using False by (simp add: displayLabels_snoc)
    also have "\<dots> = map (\<lambda>k. (xs @ [x]) ! (60 * k)) [0..<?m]"
      using snoc.IH by (simp only: old)
    finally show ?thesis by (simp only: m)
  qed
qed

lemma ceil60: "int ((n + 59) div 60) = \<lceil>real n / 60\<rceil>"
  by linarith

section \<open>Facts about the fetch cycles\<close>

lemma fetchData_ok:
  "HomeScreen_fetchData (backend_ok w p a) city =
     ([probe_request, Get WellData (Some city), Get Predict (Some city), Get Analysis (Some city)],
      Ready (composeChart w p) a)"
  by (simp add: HomeScreen_fetchData_def backend_ok_def testBackendConnection_def
      fetch_checked_def ok_def)

lemma IndexScreen_fetchData_ok:
  "IndexScreen_fetchData (backend_ok w p a)
     = ([Get WellData None, Get Predict None, Get Analysis None], Ready (composeChart w p) a)"
  by (simp add: IndexScreen_fetchData_def backend_ok_def)

lemma fetchData_well_500:
  "HomeScreen_fetchData backend_well_500 city =
     ([probe_request], Failed ''Cannot connect to backend server'')"
  by (simp add: HomeScreen_fetchData_def backend_well_500_def backend_ok_def
      testBackendConnection_def ok_def)

lemma fetch_checked_Inr: "fetch_checked what f = Inr r \<Longrightarrow> f = Resolved r \<and> ok r"
  by (auto simp: fetch_checked_def split: fetched.splits if_splits)

lemma HomeScreen_Ready_replies:
  assumes "snd (HomeScreen_fetchData bk city) = Ready chart a"
  shows "\<exists>rw rp ra wd pd.
           well_data_reply bk (Some city) = Resolved rw \<and> ok rw \<and> json rw = Inr wd
         \<and> predict_reply bk (Some city) = Resolved rp \<and> ok rp \<and> json rp = Inr pd
         \<and> analysis_reply bk (Some city) = Resolved ra \<and> ok ra \<and> json ra = Inr a
         \<and> chart = composeChart wd pd"
  using assms
  by (auto simp: HomeScreen_fetchData_def split: if_splits sum.splits
      dest!: fetch_checked_Inr)

lemma IndexScreen_Ready_analysis:
  assumes "snd (IndexScreen_fetchData bk) = Ready chart a"
  shows "\<exists>r. analysis_reply bk None = Resolved r \<and> json r = Inr a"
  using assms
  by (auto simp: IndexScreen_fetchData_def split: fetched.splits sum.splits)

text \<open>
  In HomeScreen a response that is not ok on any of the three data endpoints ends the
  cycle in the \<open>catch\<close> block.
\<close>

lemma HomeScreen_non_ok_fails:
  assumes "(\<exists>r. well_data_reply bk (Some city) = Resolved r \<and> \<not> ok r)
         \<or> (\<exists>r. predict_reply bk (Some city) = Resolved r \<and> \<not> ok r)
         \<or> (\<exists>r. analysis_reply bk (Some city) = Resolved r \<and> \<not> ok r)"
  shows "\<exists>m. snd (HomeScreen_fetchData bk city) = Failed m"
proof (cases "snd (HomeScreen_fetchData bk city)")
  case (Ready chart a)
  from HomeScreen_Ready_replies [OF this] assms show ?thesis by auto
next
  case (Failed m)
  then show ?thesis by simp
qed

section \<open>Facts about the mounted HomeScreen\<close>












section \<open>Facts about the condition text\<close>

lemma str_includes_sublist: "str_includes s n = sublist n s"
  by (induction s) (simp_all add: sublist_Cons_right)

lemma semi_critical_includes_critical:
  assumes "str_includes cond ''Semi-Critical''"
  shows "str_includes cond ''Critical''"
proof -
  from assms obtain p q where "cond = p @ ''Semi-Critical'' @ q"
    by (auto simp: str_includes_sublist sublist_def)
  then have "cond = (p @ ''Semi-'') @ ''Critical'' @ q"
    by simp
  then show ?thesis
    unfolding str_includes_sublist sublist_def by blast
qed

section \<open>Facts about the concrete inputs\<close>

lemma day_strings:
  "string_of_nat 0 = ''0''" "string_of_nat 60 = ''60''" "string_of_nat 120 = ''120''"
  by code_simp+

lemma well_180_lengths:
  "length (dates well_180) = 180" "length (levels well_180) = 180"
  "length (predicted_levels predict_30) = 30"
  by (simp_all add: well_180_def predict_30_def)

lemma well_180_days:
  "dates well_180 ! 0 = ''day 0''" "dates well_180 ! 60 = ''day 60''"
  "dates well_180 ! 120 = ''day 120''"
  by (simp_all add: well_180_def day_strings)

section \<open>Chart composition\<close>

text \<open>
  Claim C2, as the code has it: for every well-data record with \<open>h\<close> levels and every
  predict record with \<open>f\<close> predicted levels, the forecast dataset of the composed chart
  has length \<open>h + f\<close>, the historical dataset has length \<open>h\<close> (so the two have the
  same length exactly when there is no predicted level), and the first \<open>h\<close> entries of
  the forecast dataset are null.
\<close>

theorem forecastDataset_padding: "length (data (datasets (composeChart wd pd) ! 1))
      = length (levels wd) + length (predicted_levels pd)
  \<and> length (data (datasets (composeChart wd pd) ! 0)) = length (levels wd)
  \<and> take (length (levels wd)) (data (datasets (composeChart wd pd) ! 1))
      = replicate (length (levels wd)) None
  \<and> (length (data (datasets (composeChart wd pd) ! 1))
        = length (data (datasets (composeChart wd pd) ! 0)))
      = (predicted_levels pd = [])"
  by (simp add: composeChart_def forecastDataset_def historicalDataset_def)

text \<open>
  At one level and one predicted level the forecast dataset has two entries, the
  historical dataset one, and the first entry of the forecast dataset is null.
\<close>

theorem forecastDataset_padding_witness:
  "length (data (datasets (composeChart well_1 predict_1) ! 1)) = 2
   \<and> length (data (datasets (composeChart well_1 predict_1) ! 0)) = 1
   \<and> take 1 (data (datasets (composeChart well_1 predict_1) ! 1)) = [None]"
  using forecastDataset_padding [of well_1 predict_1]
  by (simp add: well_1_def predict_1_def)

text \<open>
  Claim C2 as stated, that the forecast dataset has the length of the historical
  dataset, fails at one level and one predicted level.
\<close>

theorem dataset_lengths_differ: "length (data (datasets (composeChart well_1 predict_1) ! 1))
   \<noteq> length (data (datasets (composeChart well_1 predict_1) ! 0))"
  by (simp add: composeChart_def forecastDataset_def historicalDataset_def well_1_def predict_1_def)

text \<open>
  Claim C3, as the code has it: for a well-data record with 180 dates and 180 levels
  and a predict record with 30 predicted levels, the composed chart has two datasets,
  the first of length 180 (the levels) and the second of length 210; the second is null
  at indices 0 to 179 and holds the predicted levels at indices 180 to 209; the labels
  are the three dates at indices 0, 60 and 120.
\<close>

theorem chart_180_30:
  assumes "length (dates wd) = 180" and "length (levels wd) = 180"
    and "length (predicted_levels pd) = 30"
  shows "length (datasets (composeChart wd pd)) = 2
    \<and> length (data (datasets (composeChart wd pd) ! 0)) = 180
    \<and> length (data (datasets (composeChart wd pd) ! 1)) = 210
    \<and> take 180 (data (datasets (composeChart wd pd) ! 1)) = replicate 180 None
    \<and> drop 180 (data (datasets (composeChart wd pd) ! 1)) = map Some (predicted_levels pd)
    \<and> labels (composeChart wd pd) = [dates wd ! 0, dates wd ! 60, dates wd ! 120]"
proof -
  have "[0..<(180 + 59) div 60] = [0, 1, 2::nat]"
    by (simp add: upt_rec)
  then have "displayLabels (dates wd) = [dates wd ! 0, dates wd ! 60, dates wd ! 120]"
    using assms(1) by (simp add: displayLabels_nth)
  then show ?thesis
    using assms by (simp add: composeChart_def forecastDataset_def historicalDataset_def)
qed

text \<open>
  The 180 dates \<open>day 0\<close> to \<open>day 179\<close> with 30 predicted levels: the labels are
  \<open>day 0\<close>, \<open>day 60\<close> and \<open>day 120\<close>.
\<close>

theorem chart_180_30_witness:
  "length (dates well_180) = 180 \<and> length (levels well_180) = 180
   \<and> length (predicted_levels predict_30) = 30
   \<and> length (data (datasets (composeChart well_180 predict_30) ! 0)) = 180
   \<and> length (data (datasets (composeChart well_180 predict_30) ! 1)) = 210
   \<and> labels (composeChart well_180 predict_30) = [''day 0'', ''day 60'', ''day 120'']"
  using chart_180_30 [OF well_180_lengths]
  by (simp add: well_180_lengths well_180_days)

text \<open>
  Claim C3 as stated fails at that input: the first dataset does not have length 210,
  and there are not 4 labels.
\<close>

theorem end_to_end_example_fails:
  "length (dates well_180) = 180 \<and> length (levels well_180) = 180
   \<and> length (predicted_levels predict_30) = 30
   \<and> length (data (datasets (composeChart well_180 predict_30) ! 0)) \<noteq> 210
   \<and> length (labels (composeChart well_180 predict_30)) \<noteq> 4"
  by (simp add: composeChart_def historicalDataset_def length_displayLabels well_180_lengths)

text \<open>
  Claim C6, as the code has it: for every sequence of combined labels of length \<open>L\<close>
  the display labels have length \<open>ceil(L / 60)\<close>, also when \<open>L\<close> is 0; the length is
  exactly 1 when \<open>L\<close> is between 1 and 60.
\<close>

theorem displayLabels_length:
  "int (length (displayLabels xs)) = \<lceil>real (length xs) / 60\<rceil>
   \<and> (0 < length xs \<and> length xs \<le> 60 \<longrightarrow> length (displayLabels xs) = 1)"
proof
  show "int (length (displayLabels xs)) = \<lceil>real (length xs) / 60\<rceil>"
    by (simp only: length_displayLabels ceil60)
  show "0 < length xs \<and> length xs \<le> 60 \<longrightarrow> length (displayLabels xs) = 1"
    unfolding length_displayLabels by linarith
qed

text \<open>
  One date gives one label.
\<close>

theorem displayLabels_length_witness: "0 < length (dates well_1) \<and> length (dates well_1) \<le> 60
   \<and> length (displayLabels (dates well_1)) = 1"
  using displayLabels_length [of "dates well_1"] by (simp add: well_1_def)

text \<open>
  Claim C6 as stated, exactly one label whenever \<open>L\<close> is at most 60, fails for the
  empty sequence.
\<close>

theorem no_date_no_label: "length ([] :: string list) \<le> 60 \<and> length (displayLabels []) \<noteq> 1"
  by (simp add: displayLabels_Nil)

text \<open>
  Claim C9: when the historical date sequence is empty, the stride-60 subsampling
  produces an empty sequence of display labels, and so the composed chart has no
  labels.
\<close>

theorem empty_series_has_no_labels: "length (dates wd) = 0 \<Longrightarrow>
   displayLabels (dates wd) = [] \<and> labels (composeChart wd pd) = []"
  by (simp add: composeChart_def displayLabels_Nil)

text \<open>
  A well-data record without dates gives a chart with zero labels.
\<close>

theorem empty_series_has_no_labels_witness: "length (dates well_empty) = 0 \<and> labels (composeChart well_empty predict_1) = []
    \<and> length (labels (composeChart well_empty predict_1)) = 0"
  using empty_series_has_no_labels [of well_empty predict_1] by (simp add: well_empty_def)

section \<open>Severity colour\<close>

text \<open>
  Claim C10: for every condition text that contains \<open>Semi-Critical\<close> the colour is
  red, because the text then contains \<open>Critical\<close>, which is tested first; no condition
  text at all gets the colour orange.
\<close>

theorem semi_critical_is_red:
  "(str_includes cond ''Semi-Critical'' \<longrightarrow> conditionColor cond = ''red'')
   \<and> conditionColor cond \<noteq> ''orange''"
  using semi_critical_includes_critical [of cond]
  by (auto simp: conditionColor_def)

text \<open>
  A condition text that contains \<open>Semi-Critical\<close> is shown in red.
\<close>

theorem semi_critical_is_red_witness:
  "str_includes ''Groundwater is Semi-Critical'' ''Semi-Critical''
   \<and> conditionColor ''Groundwater is Semi-Critical'' = ''red''"
  using semi_critical_is_red [of "''Groundwater is Semi-Critical''"] by simp

section \<open>Fetch cycles\<close>

text \<open>
  Claim C7: in every fetch cycle of HomeScreen, if the connectivity probe runs into its
  timer, is rejected or gets a response that is not ok, the cycle issues the probe
  request only, none of the three data requests for the city, and ends in the \<open>catch\<close>
  block with the message \<open>Cannot connect to backend server\<close>.
\<close>

theorem probe_failure_short_circuits:
  assumes "probe_timed_out bk
         \<or> (\<exists>m. well_data_reply bk None = Rejected m)
         \<or> (\<exists>r. well_data_reply bk None = Resolved r \<and> \<not> ok r)"
  shows "HomeScreen_fetchData bk city
           = ([Get WellData None], Failed ''Cannot connect to backend server'')
       \<and> Get WellData (Some city) \<notin> set (fst (HomeScreen_fetchData bk city))
       \<and> Get Predict (Some city) \<notin> set (fst (HomeScreen_fetchData bk city))
       \<and> Get Analysis (Some city) \<notin> set (fst (HomeScreen_fetchData bk city))"
proof -
  from assms have "\<not> testBackendConnection bk"
    by (auto simp: testBackendConnection_def)
  then show ?thesis
    by (simp add: HomeScreen_fetchData_def probe_request_def)
qed

text \<open>
  A probe that runs into its timer: the only request is the probe.
\<close>

theorem probe_failure_short_circuits_witness:
  "probe_timed_out backend_probe_timeout
   \<and> HomeScreen_fetchData backend_probe_timeout nagpur_maharashtra
       = ([Get WellData None], Failed ''Cannot connect to backend server'')"
  using probe_failure_short_circuits [of backend_probe_timeout nagpur_maharashtra]
  by (simp add: backend_probe_timeout_def)

text \<open>
  Claim C4 at IndexScreen: the analysis endpoint answers with status 500 and a body that
  parses; the cycle does not fail, it shows the chart and the analysis of the three
  bodies. (HomeScreen fails on such a response, see \<open>HomeScreen_non_ok_fails\<close>.)
\<close>

theorem IndexScreen_ready_on_status_500:
  "analysis_reply backend_analysis_500 None = Resolved (Response 500 (Inr analysis_semi))
   \<and> \<not> ok (Response 500 (Inr analysis_semi))
   \<and> IndexScreen_settle (snd (IndexScreen_fetchData backend_analysis_500)) IndexScreen_initial
       = \<lparr> loading = False, chartData = composeChart well_1 predict_1,
           analysis = analysis_semi \<rparr>"
  by (simp add: backend_analysis_500_def backend_ok_def ok_def IndexScreen_fetchData_def
      IndexScreen_settle_def IndexScreen_initial_def)

text \<open>
  Claim C8: in every fetch cycle that reaches \<open>setAnalysis\<close> in the \<open>try\<close> block, on
  either screen, the analysis record put into the state is the parsed body of the
  analysis response, unchanged, and so is its condition text.
\<close>

theorem analysis_passed_through:
  "(snd (HomeScreen_fetchData bk city) = Ready chart a \<longrightarrow>
      (\<exists>r. analysis_reply bk (Some city) = Resolved r \<and> json r = Inr a)
      \<and> analysis (HomeScreen_settle (Ready chart a) s) = a)
   \<and> (snd (IndexScreen_fetchData bk) = Ready chart' a' \<longrightarrow>
      (\<exists>r. analysis_reply bk None = Resolved r \<and> json r = Inr a')
      \<and> analysis (IndexScreen_settle (Ready chart' a') t) = a')"
proof (intro conjI impI)
  assume "snd (HomeScreen_fetchData bk city) = Ready chart a"
  from HomeScreen_Ready_replies [OF this]
  show "\<exists>r. analysis_reply bk (Some city) = Resolved r \<and> json r = Inr a"
    by blast
next
  assume "snd (IndexScreen_fetchData bk) = Ready chart' a'"
  then show "\<exists>r. analysis_reply bk None = Resolved r \<and> json r = Inr a'"
    by (rule IndexScreen_Ready_analysis)
qed (simp_all add: HomeScreen_settle_def IndexScreen_settle_def)

text \<open>
  The condition \<open>Semi-Critical\<close> is exposed as \<open>Semi-Critical\<close> by both screens.
\<close>

theorem analysis_passed_through_witness:
  "snd (HomeScreen_fetchData (backend_ok well_1 predict_1 analysis_semi) jaipur_rajasthan)
     = Ready (composeChart well_1 predict_1) analysis_semi
   \<and> snd (IndexScreen_fetchData (backend_ok well_1 predict_1 analysis_semi))
     = Ready (composeChart well_1 predict_1) analysis_semi
   \<and> condition (analysis (HomeScreen_settle
        (snd (HomeScreen_fetchData (backend_ok well_1 predict_1 analysis_semi) jaipur_rajasthan))
        HomeScreen_initial)) = ''Semi-Critical''
   \<and> condition (analysis (IndexScreen_settle
        (snd (IndexScreen_fetchData (backend_ok well_1 predict_1 analysis_semi)))
        IndexScreen_initial)) = ''Semi-Critical''"
  using analysis_passed_through [of "backend_ok well_1 predict_1 analysis_semi" jaipur_rajasthan
      "composeChart well_1 predict_1" analysis_semi HomeScreen_initial
      "composeChart well_1 predict_1" analysis_semi IndexScreen_initial]
  by (simp add: fetchData_ok IndexScreen_fetchData_ok analysis_semi_def)

section \<open>View state\<close>

text \<open>
  Claim C5, as the code has it: when a fetch cycle fails, the analysis cell is replaced
  by the error record and \<open>loading\<close> is set to false; the chart cell is not written, it
  keeps the value it had before the cycle settled (and HomeScreen keeps its selected
  city).
\<close>

theorem failed_cycle_keeps_chart:
  "chartData (HomeScreen_settle (Failed m) s) = chartData s
   \<and> analysis (HomeScreen_settle (Failed m) s) = connection_error m
   \<and> loading (HomeScreen_settle (Failed m) s) = False
   \<and> selectedCity (HomeScreen_settle (Failed m) s) = selectedCity s
   \<and> chartData (IndexScreen_settle (Failed m) t) = chartData t
   \<and> condition (analysis (IndexScreen_settle (Failed m) t)) = ''Error''
   \<and> loading (IndexScreen_settle (Failed m) t) = False"
  by (simp add: HomeScreen_settle_def IndexScreen_settle_def)

text \<open>
  Claim C5 as stated fails: after a successful cycle for Bhubaneswar and a failed cycle
  for Jaipur the state holds the chart of the first cycle together with the error
  of the second.
\<close>

theorem error_shown_over_previous_chart:
  "map_option (\<lambda>a. (selectedCity (screen a), loading (screen a), chartData (screen a),
                     condition (analysis (screen a))))
     (run failing_switch_events App_initial)
   = Some (jaipur_rajasthan, False, composeChart well_1 predict_1, ''Connection Error'')
   \<and> composeChart well_1 predict_1 \<noteq> initial_chartData"
  by (simp add: failing_switch_events_def App_initial_def fire_def fetchData_ok
      fetchData_well_500 HomeScreen_settle_def HomeScreen_initial_def onPress_def
      connection_error_def composeChart_def initial_chartData_def
      historicalDataset_def well_1_def)



end
